theory Spec2Isabelle
  imports Main "HOL-Library.AList"
begin

section \<open>Name collection for Quint name resolution\<close>

text \<open>
  A shallow embedding of the class \<open>NameCollector\<close> (names/collector): the visitor
  that collects the top-level definitions of every module and handles imports,
  instances and exports.

  A JavaScript \<open>Map\<close> keeps its keys distinct and in insertion order. It is modelled
  as an association list: \<open>get\<close> is \<^const>\<open>map_of\<close>, \<open>set\<close> is \<^const>\<open>AList.update\<close>
  (the value is replaced in place when the key exists, appended otherwise) and
  \<open>delete\<close> is \<^const>\<open>AList.delete\<close>.

  The collector mutates \<open>Map\<close> objects that are shared: \<open>exitModule\<close> stores the very
  object \<open>definitionsByName\<close> in the registry, and \<open>enterInstance\<close> registers the
  instance table before it applies the overrides to it. The definition tables
  therefore live in a store, and the collector and the registry hold references.
\<close>

subsection \<open>Data\<close>

text \<open>The import-like declarations \<open>QuintImport | QuintExport | QuintInstance\<close>.\<close>

record QuintLambdaParameter =
  param_id :: int
  param_name :: string

record QuintEx =
  ex_id :: int

record Decl =
  decl_kind :: string
  decl_id :: int
  protoName :: string
  qualifiedName :: "string option"
  defName :: "string option"
  overrides :: "(QuintLambdaParameter \<times> QuintEx) list"

text \<open>
  \<open>LookupDefinition\<close>: a definition (or parameter) with the optional fields the
  collector adds. \<open>id\<close> is a \<open>bigint\<close>.
\<close>

record LookupDefinition =
  kind :: string
  name :: string
  id_of :: int
  typeAnnotation :: "string option"
  depth :: "int option"
  namespaces :: "string list option"
  importedFrom :: "Decl option"

record QuintModule =
  mod_name :: string
  mod_id :: int

text \<open>\<open>QuintError\<close>; the field \<open>data\<close> is \<open>{}\<close> in every error built here.\<close>

record QuintError =
  code :: string
  message :: string
  reference :: int

type_synonym DefinitionsByName = "(string \<times> LookupDefinition) list"

type_synonym ref = nat

record NameCollector =
  heap :: "ref \<Rightarrow> DefinitionsByName"
  nextRef :: ref
  definitionsByName :: ref
  definitionsByModule :: "(string \<times> ref) list"
  errors :: "QuintError list"
  definitionDepth :: int
  currentModuleName :: string

text \<open>
  What the collector imports from \<open>./base\<close>, \<open>./importErrors\<close> and
  \<open>../ir/quintIr\<close>: the list of built-in names, the
  namespace copier, the namespace tagging of a definition, the qualifier of a
  declaration and the constructors of the import errors. They are parameters of the
  model. The third argument of \<open>copyNames\<close> is optional in the source.
\<close>

record Base =
  builtinNames :: "string list"
  copyNames :: "DefinitionsByName \<Rightarrow> string option \<Rightarrow> bool option \<Rightarrow> DefinitionsByName"
  addNamespacesToDef :: "LookupDefinition \<Rightarrow> string list \<Rightarrow> LookupDefinition"
  qualifier :: "Decl \<Rightarrow> string option"
  selfReferenceError :: "Decl \<Rightarrow> QuintError"
  moduleNotFoundError :: "Decl \<Rightarrow> QuintError"
  nameNotFoundError :: "Decl \<Rightarrow> QuintError"
  paramNotFoundError :: "Decl \<Rightarrow> QuintLambdaParameter \<Rightarrow> QuintError"
  paramIsNotAConstantError :: "Decl \<Rightarrow> QuintLambdaParameter \<Rightarrow> QuintError"

subsection \<open>JavaScript primitives\<close>

text \<open>Truthiness of an optional string: \<open>undefined\<close> and \<open>''\<close> are falsy.\<close>

definition truthy :: "string option \<Rightarrow> bool" where
  "truthy v = (case v of None \<Rightarrow> False | Some x \<Rightarrow> x \<noteq> [])"

text \<open>Truthiness of an optional \<open>bigint\<close>: \<open>undefined\<close> and \<open>0n\<close> are falsy.\<close>

definition truthy_bigint :: "int option \<Rightarrow> bool" where
  "truthy_bigint v = (case v of None \<Rightarrow> False | Some i \<Rightarrow> i \<noteq> 0)"

text \<open>\<open>compact\<close> of lodash, on strings: the falsy elements (\<open>''\<close>) are dropped.\<close>

definition compact :: "string list \<Rightarrow> string list" where
  "compact xs = filter (\<lambda>x. x \<noteq> []) xs"

text \<open>\<open>new Map(entries)\<close>: the entries are set one after the other.\<close>

definition Map_new :: "(string \<times> 'v) list \<Rightarrow> (string \<times> 'v) list" where
  "Map_new entries = fold (\<lambda>(k, v) m. AList.update k v m) entries []"

text \<open>A name between single quotes, as the message templates print it.\<close>

definition quoted :: "string \<Rightarrow> string" where
  "quoted x = [CHR 0x27] @ x @ [CHR 0x27]"

subsection \<open>The collected definitions\<close>

text \<open>The table \<open>this.definitionsByName\<close> refers to.\<close>

definition table :: "NameCollector \<Rightarrow> DefinitionsByName" where
  "table s = heap s (definitionsByName s)"

definition recordConflict :: "NameCollector \<Rightarrow> string \<Rightarrow> int option \<Rightarrow> int \<Rightarrow> NameCollector" where
  "recordConflict s identifier exisitingSource newSource =
     (let message =
            (if truthy_bigint exisitingSource
             then ''Conflicting definitions found for name '' @ quoted identifier
                    @ '' in module '' @ quoted (currentModuleName s)
             else ''Built-in name '' @ quoted identifier
                    @ '' is redefined in module '' @ quoted (currentModuleName s));
          s1 = (case exisitingSource of
                  Some i \<Rightarrow>
                    if i \<noteq> 0
                    then s\<lparr>errors := errors s @ [\<lparr>code = ''QNT101'', message = message, reference = i\<rparr>]\<rparr>
                    else s
                | None \<Rightarrow> s)
      in s1\<lparr>errors := errors s1 @ [\<lparr>code = ''QNT101'', message = message, reference = newSource\<rparr>]\<rparr>)"

definition namespaces_of :: "Base \<Rightarrow> NameCollector \<Rightarrow> Decl \<Rightarrow> string list" where
  "namespaces_of B s decl =
     (if decl_kind decl = ''instance''
      then compact [case qualifiedName decl of Some q \<Rightarrow> q | None \<Rightarrow> protoName decl,
                    currentModuleName s]
      else (let namespace = qualifier B decl
            in if truthy namespace then [the namespace] else []))"

text \<open>The locals \<open>identifier\<close>, \<open>source\<close> and \<open>namespaces\<close> of \<open>collectDefinition\<close>.\<close>

definition identifier_of :: "LookupDefinition \<Rightarrow> Decl option \<Rightarrow> string" where
  "identifier_of def imp =
     (case imp of
        None \<Rightarrow> name def
      | Some decl \<Rightarrow> (case defName decl of Some n \<Rightarrow> n | None \<Rightarrow> name def))"

definition source_of :: "LookupDefinition \<Rightarrow> Decl option \<Rightarrow> int" where
  "source_of def imp =
     (case imp of None \<Rightarrow> id_of def | Some decl \<Rightarrow> decl_id decl)"

definition namespaces_from :: "Base \<Rightarrow> NameCollector \<Rightarrow> Decl option \<Rightarrow> string list" where
  "namespaces_from B s imp =
     (case imp of None \<Rightarrow> [] | Some decl \<Rightarrow> namespaces_of B s decl)"

text \<open>The record \<open>{ ...addNamespacesToDef(def, namespaces), importedFrom }\<close>.\<close>

definition tagged :: "Base \<Rightarrow> NameCollector \<Rightarrow> LookupDefinition \<Rightarrow> Decl option \<Rightarrow> LookupDefinition" where
  "tagged B s def imp =
     (addNamespacesToDef B def (namespaces_from B s imp))\<lparr>importedFrom := imp\<rparr>"

definition collectDefinition ::
  "Base \<Rightarrow> NameCollector \<Rightarrow> LookupDefinition \<Rightarrow> Decl option \<Rightarrow> NameCollector" where
  "collectDefinition B s def imp =
     (let identifier = identifier_of def imp;
          source = source_of def imp
      in if identifier = ''_'' then s
         else if identifier \<in> set (builtinNames B)
         then recordConflict s identifier None source
         else (case map_of (table s) identifier of
                 Some existing \<Rightarrow>
                   if id_of existing \<noteq> id_of def
                   then recordConflict s identifier (Some (id_of existing)) source
                   else s\<lparr>heap := (heap s)(definitionsByName s :=
                                 AList.update identifier (tagged B s def imp) (table s))\<rparr>
               | None \<Rightarrow>
                   s\<lparr>heap := (heap s)(definitionsByName s :=
                                 AList.update identifier (tagged B s def imp) (table s))\<rparr>))"

definition deleteDefinition :: "NameCollector \<Rightarrow> string \<Rightarrow> NameCollector" where
  "deleteDefinition s identifier =
     s\<lparr>heap := (heap s)(definitionsByName s := AList.delete identifier (table s))\<rparr>"

definition getDefinition :: "NameCollector \<Rightarrow> string \<Rightarrow> LookupDefinition option" where
  "getDefinition s identifier = map_of (table s) identifier"

text \<open>
  \<open>collectDefinitions\<close>: the conflicts are recorded entry by entry, against the
  table as it is before the batch; then \<open>definitionsByName\<close> becomes a new \<open>Map\<close> of
  the old entries followed by the new ones.
\<close>

definition conflictOfEntry ::
  "DefinitionsByName \<Rightarrow> string \<times> LookupDefinition \<Rightarrow> NameCollector \<Rightarrow> NameCollector" where
  "conflictOfEntry old entry s =
     (case entry of (identifier, def) \<Rightarrow>
        (case map_of old identifier of
           Some existingEntry \<Rightarrow>
             if id_of existingEntry \<noteq> id_of def
             then recordConflict s identifier (Some (id_of existingEntry)) (id_of def)
             else s
         | None \<Rightarrow> s))"

definition collectDefinitions ::
  "Base \<Rightarrow> NameCollector \<Rightarrow> DefinitionsByName \<Rightarrow> Decl option \<Rightarrow> NameCollector" where
  "collectDefinitions B s newDefs imp =
     (let s1 = fold (conflictOfEntry (table s)) newDefs s;
          newEntries = map (\<lambda>(identifier, def). (identifier, tagged B s def imp)) newDefs;
          r = nextRef s1
      in s1\<lparr>heap := (heap s1)(r := Map_new (table s @ newEntries)),
            nextRef := Suc r,
            definitionsByName := r\<rparr>)"

subsection \<open>The declaration handlers\<close>

definition enterModule :: "NameCollector \<Rightarrow> QuintModule \<Rightarrow> NameCollector" where
  "enterModule s m =
     (let r = nextRef s;
          s1 = s\<lparr>currentModuleName := mod_name m,
                heap := (heap s)(r := []),
                nextRef := Suc r,
                definitionsByName := r\<rparr>
      in if map_of (definitionsByModule s1) (mod_name m) \<noteq> None
         then s1\<lparr>errors := errors s1 @
                 [\<lparr>code = ''QNT102'',
                   message = ''Module with name '' @ quoted (mod_name m) @ '' was already defined'',
                   reference = mod_id m\<rparr>]\<rparr>
         else s1)"

definition exitModule :: "NameCollector \<Rightarrow> QuintModule \<Rightarrow> NameCollector" where
  "exitModule s m =
     s\<lparr>definitionsByModule :=
         AList.update (mod_name m) (definitionsByName s) (definitionsByModule s)\<rparr>"

definition enterVar :: "Base \<Rightarrow> NameCollector \<Rightarrow> LookupDefinition \<Rightarrow> NameCollector" where
  "enterVar B s def = collectDefinition B s def None"

definition enterConst :: "Base \<Rightarrow> NameCollector \<Rightarrow> LookupDefinition \<Rightarrow> NameCollector" where
  "enterConst B s def = collectDefinition B s def None"

definition enterOpDef :: "Base \<Rightarrow> NameCollector \<Rightarrow> LookupDefinition \<Rightarrow> NameCollector" where
  "enterOpDef B s def =
     (if definitionDepth s = 0
      then collectDefinition B s
             (def\<lparr>typeAnnotation := None, depth := Some (definitionDepth s)\<rparr>) None
      else s)"

definition enterTypeDef :: "Base \<Rightarrow> NameCollector \<Rightarrow> LookupDefinition \<Rightarrow> NameCollector" where
  "enterTypeDef B s def = collectDefinition B s def None"

definition enterAssume :: "Base \<Rightarrow> NameCollector \<Rightarrow> LookupDefinition \<Rightarrow> NameCollector" where
  "enterAssume B s def = collectDefinition B s def None"

text \<open>
  The callback of \<open>decl.overrides.forEach\<close> in \<open>enterInstance\<close>; \<open>r\<close> is the
  reference held by \<open>instanceTable\<close>.
\<close>

definition applyOverride ::
  "Base \<Rightarrow> Decl \<Rightarrow> ref \<Rightarrow> QuintLambdaParameter \<times> QuintEx \<Rightarrow> NameCollector \<Rightarrow> NameCollector" where
  "applyOverride B decl r override s =
     (case override of (param, ex) \<Rightarrow>
        (case map_of (heap s r) (param_name param) of
           None \<Rightarrow> s\<lparr>errors := errors s @ [paramNotFoundError B decl param]\<rparr>
         | Some constDef \<Rightarrow>
             if kind constDef \<noteq> ''const''
             then s\<lparr>errors := errors s @ [paramIsNotAConstantError B decl param]\<rparr>
             else s\<lparr>heap := (heap s)(r :=
                     AList.update (param_name param) (constDef\<lparr>id_of := ex_id ex\<rparr>) (heap s r))\<rparr>))"

definition enterInstance :: "Base \<Rightarrow> NameCollector \<Rightarrow> Decl \<Rightarrow> NameCollector" where
  "enterInstance B s decl =
     (if protoName decl = currentModuleName s
      then s\<lparr>errors := errors s @ [selfReferenceError B decl]\<rparr>
      else (case map_of (definitionsByModule s) (protoName decl) of
              None \<Rightarrow> s\<lparr>errors := errors s @ [moduleNotFoundError B decl]\<rparr>
            | Some moduleTable \<Rightarrow>
                (let instanceTable = nextRef s;
                     s1 = s\<lparr>heap := (heap s)(instanceTable := Map_new (heap s moduleTable)),
                           nextRef := Suc instanceTable\<rparr>;
                     s2 = (if truthy (qualifiedName decl)
                           then s1\<lparr>definitionsByModule :=
                                    AList.update (the (qualifiedName decl)) instanceTable
                                      (definitionsByModule s1)\<rparr>
                           else s1);
                     s3 = fold (applyOverride B decl instanceTable) (overrides decl) s2;
                     newDefs = copyNames B (heap s3 instanceTable) (qualifiedName decl) (Some True)
                 in collectDefinitions B s3 newDefs (Some decl))))"

text \<open>\<open>!decl.defName || decl.defName === '*'\<close>.\<close>

definition allNames :: "Decl \<Rightarrow> bool" where
  "allNames decl = (if truthy (defName decl) then defName decl = Some ''*'' else True)"

definition enterImport :: "Base \<Rightarrow> NameCollector \<Rightarrow> Decl \<Rightarrow> NameCollector" where
  "enterImport B s decl =
     (if protoName decl = currentModuleName s
      then s\<lparr>errors := errors s @ [selfReferenceError B decl]\<rparr>
      else (case map_of (definitionsByModule s) (protoName decl) of
              None \<Rightarrow> s\<lparr>errors := errors s @ [moduleNotFoundError B decl]\<rparr>
            | Some moduleTable \<Rightarrow>
                (let s1 = (if truthy (qualifiedName decl)
                           then (let newTable = nextRef s
                                 in s\<lparr>heap := (heap s)(newTable := Map_new (heap s moduleTable)),
                                      nextRef := Suc newTable,
                                      definitionsByModule :=
                                        AList.update (the (qualifiedName decl)) newTable
                                          (definitionsByModule s)\<rparr>)
                           else s);
                     importableDefinitions =
                       copyNames B (heap s1 moduleTable) (qualifier B decl) (Some True)
                 in if allNames decl
                    then collectDefinitions B s1 importableDefinitions (Some decl)
                    else (case map_of importableDefinitions (the (defName decl)) of
                            None \<Rightarrow> s1\<lparr>errors := errors s1 @ [nameNotFoundError B decl]\<rparr>
                          | Some newDef \<Rightarrow> collectDefinition B s1 newDef (Some decl)))))"

definition enterExport :: "Base \<Rightarrow> NameCollector \<Rightarrow> Decl \<Rightarrow> NameCollector" where
  "enterExport B s decl =
     (if protoName decl = currentModuleName s
      then s\<lparr>errors := errors s @ [selfReferenceError B decl]\<rparr>
      else (case map_of (definitionsByModule s) (protoName decl) of
              None \<Rightarrow> s\<lparr>errors := errors s @ [moduleNotFoundError B decl]\<rparr>
            | Some moduleTable \<Rightarrow>
                (let exportableDefinitions =
                       copyNames B (heap s moduleTable) (qualifier B decl) None
                 in if allNames decl
                    then collectDefinitions B s exportableDefinitions (Some decl)
                    else (case map_of exportableDefinitions (the (defName decl)) of
                            None \<Rightarrow> s\<lparr>errors := errors s @ [nameNotFoundError B decl]\<rparr>
                          | Some newDef \<Rightarrow> collectDefinition B s newDef (Some decl)))))"

text \<open>The collector as the class initialises it: two empty maps, no error.\<close>

definition newCollector :: NameCollector where
  "newCollector =
     \<lparr>heap = (\<lambda>r. []), nextRef = 1, definitionsByName = 0, definitionsByModule = [],
      errors = [], definitionDepth = -1, currentModuleName = []\<rparr>"

subsection \<open>A sample instantiation of the parameters\<close>

text \<open>
  Modelled from the spec: \<open>qualifier\<close> (\<open>../ir/quintIr\<close>). The qualifier of an
  import or export is the declared qualifier or else the module name.
\<close>

definition qualifier_spec :: "Decl \<Rightarrow> string option" where
  "qualifier_spec decl =
     Some (case qualifiedName decl of Some q \<Rightarrow> q | None \<Rightarrow> protoName decl)"

text \<open>
  Modelled from the spec: \<open>addNamespacesToDef\<close> (\<open>./base\<close>). The namespaces implied
  by the declaration are attached to the definition; nothing else changes.
\<close>

definition addNamespacesToDef_spec :: "LookupDefinition \<Rightarrow> string list \<Rightarrow> LookupDefinition" where
  "addNamespacesToDef_spec def nss =
     def\<lparr>namespaces := Some ((case namespaces def of None \<Rightarrow> [] | Some old \<Rightarrow> old) @ nss)\<rparr>"

text \<open>
  Modelled from the spec: \<open>copyNames\<close> (\<open>./base\<close>). Without a namespace the copy is
  keyed by the name unchanged; with a namespace it is keyed by \<open>namespace::name\<close>, and
  the bare name is bound too when \<open>unhide\<close> is set and the definition carries no
  namespace.
\<close>

definition copyNames_spec ::
  "DefinitionsByName \<Rightarrow> string option \<Rightarrow> bool option \<Rightarrow> DefinitionsByName" where
  "copyNames_spec t namespace unhide =
     Map_new (concat (map (\<lambda>(n, def).
        if truthy namespace
        then (the namespace @ ''::'' @ n, def) #
             (if unhide = Some True \<and> (namespaces def = None \<or> namespaces def = Some [])
              then [(n, def)] else [])
        else [(n, def)]) t))"

text \<open>
  Modelled from the spec: the constructors of \<open>./importErrors\<close>. The error taxonomy
  names the codes; every diagnostic refers to a source identity, here the one of the
  declaration. The wording of the messages is not fixed, they are left empty.
\<close>

definition importError :: "string \<Rightarrow> Decl \<Rightarrow> QuintError" where
  "importError c decl = \<lparr>code = c, message = [], reference = decl_id decl\<rparr>"

text \<open>
  The sample: the helpers above and three reserved names standing for the list of
  built-in names.
\<close>

definition sampleBase :: Base where
  "sampleBase =
     \<lparr>builtinNames = [''not'', ''and'', ''Nat''],
      copyNames = copyNames_spec,
      addNamespacesToDef = addNamespacesToDef_spec,
      qualifier = qualifier_spec,
      selfReferenceError = importError ''SELF-REFERENCE'',
      moduleNotFoundError = importError ''MODULE-NOT-FOUND'',
      nameNotFoundError = importError ''NAME-NOT-FOUND'',
      paramNotFoundError = (\<lambda>decl param. importError ''PARAM-NOT-FOUND'' decl),
      paramIsNotAConstantError = (\<lambda>decl param. importError ''PARAM-NOT-CONST'' decl)\<rparr>"

text \<open>A definition with the given kind, name and identity and no optional field.\<close>

definition mkDef :: "string \<Rightarrow> string \<Rightarrow> int \<Rightarrow> LookupDefinition" where
  "mkDef k n i =
     \<lparr>kind = k, name = n, id_of = i, typeAnnotation = None, depth = None,
      namespaces = None, importedFrom = None\<rparr>"

text \<open>A collector inside module \<open>m\<close> whose table holds the given entries.\<close>

definition collectorWith :: "string \<Rightarrow> DefinitionsByName \<Rightarrow> NameCollector" where
  "collectorWith m t = newCollector\<lparr>heap := (\<lambda>r. [])(0 := t), currentModuleName := m\<rparr>"

text \<open>An import-like declaration.\<close>

definition mkDecl ::
  "string \<Rightarrow> int \<Rightarrow> string \<Rightarrow> string option \<Rightarrow> string option
     \<Rightarrow> (QuintLambdaParameter \<times> QuintEx) list \<Rightarrow> Decl" where
  "mkDecl k i proto q dn ovs =
     \<lparr>decl_kind = k, decl_id = i, protoName = proto, qualifiedName = q, defName = dn,
      overrides = ovs\<rparr>"

text \<open>
  The scenario of the specification: module \<open>Bank\<close> defines the constant \<open>limit\<close>
  (identity 1) and the variable \<open>balance\<close> (identity 2); the collector has left
  \<open>Bank\<close> and entered \<open>Client\<close>.
\<close>

definition bankModule :: QuintModule where
  "bankModule = \<lparr>mod_name = ''Bank'', mod_id = 10\<rparr>"

definition clientModule :: QuintModule where
  "clientModule = \<lparr>mod_name = ''Client'', mod_id = 20\<rparr>"

definition inClient :: NameCollector where
  "inClient =
     enterModule
       (exitModule
          (enterVar sampleBase
             (enterConst sampleBase (enterModule newCollector bankModule)
                (mkDef ''const'' ''limit'' 1))
             (mkDef ''var'' ''balance'' 2))
          bankModule)
       clientModule"

text \<open>
  \<open>instance Bank as B2\<close> with three overrides: of the constant \<open>limit\<close>, of the
  variable \<open>balance\<close> and of a name that \<open>Bank\<close> does not define.
\<close>

definition instanceB2 :: Decl where
  "instanceB2 =
     mkDecl ''instance'' 30 ''Bank'' (Some ''B2'') None
       [(\<lparr>param_id = 31, param_name = ''limit''\<rparr>, \<lparr>ex_id = 100\<rparr>),
        (\<lparr>param_id = 32, param_name = ''balance''\<rparr>, \<lparr>ex_id = 101\<rparr>),
        (\<lparr>param_id = 33, param_name = ''missing''\<rparr>, \<lparr>ex_id = 102\<rparr>)]"

text \<open>\<open>instance Bank as B2\<close> overriding \<open>limit\<close> twice.\<close>

definition instanceTwice :: Decl where
  "instanceTwice =
     mkDecl ''instance'' 30 ''Bank'' (Some ''B2'') None
       [(\<lparr>param_id = 31, param_name = ''limit''\<rparr>, \<lparr>ex_id = 100\<rparr>),
        (\<lparr>param_id = 32, param_name = ''limit''\<rparr>, \<lparr>ex_id = 200\<rparr>)]"

text \<open>
  A unit that defines module \<open>Client\<close> twice: the first \<open>Client\<close> is registered
  (empty), the collector is inside the second one. There, \<open>instance Client\<close> with
  an override.
\<close>

definition clientAgain :: NameCollector where
  "clientAgain =
     enterModule (exitModule (enterModule newCollector clientModule) clientModule) clientModule"

definition instanceSelf :: Decl where
  "instanceSelf =
     mkDecl ''instance'' 30 ''Client'' (Some ''B2'') None
       [(\<lparr>param_id = 33, param_name = ''missing''\<rparr>, \<lparr>ex_id = 102\<rparr>)]"



subsection \<open>Notions used by the properties\<close>

text \<open>The diagnostics that a step from \<open>s\<close> to \<open>s'\<close> has added.\<close>

definition emitted :: "NameCollector \<Rightarrow> NameCollector \<Rightarrow> QuintError list" where
  "emitted s s' = drop (length (errors s)) (errors s')"

text \<open>
  The batch collection as the specification words it: the policy of
  \<open>collectDefinition\<close> applied to the definitions of the batch, one after the other.
\<close>

definition collectEach ::
  "Base \<Rightarrow> NameCollector \<Rightarrow> DefinitionsByName \<Rightarrow> Decl option \<Rightarrow> NameCollector" where
  "collectEach B s newDefs imp = fold (\<lambda>(identifier, def) st. collectDefinition B st def imp) newDefs s"

text \<open>
  The collector in \<open>enterInstance\<close> before the overrides are applied: the table of
  the module is cloned into \<open>instanceTable\<close> and registered under the qualifier.
\<close>

definition instanceStart :: "NameCollector \<Rightarrow> Decl \<Rightarrow> ref \<Rightarrow> NameCollector" where
  "instanceStart s decl moduleTable =
     (let instanceTable = nextRef s;
          s1 = s\<lparr>heap := (heap s)(instanceTable := Map_new (heap s moduleTable)),
                nextRef := Suc instanceTable\<rparr>
      in if truthy (qualifiedName decl)
         then s1\<lparr>definitionsByModule :=
                  AList.update (the (qualifiedName decl)) instanceTable (definitionsByModule s1)\<rparr>
         else s1)"

section \<open>Properties\<close>

subsection \<open>Auxiliary facts\<close>

lemmas sample_defs = collectorWith_def newCollector_def mkDef_def mkDecl_def sampleBase_def
  importError_def identifier_of_def source_of_def table_def getDefinition_def

text \<open>Recording a conflict only appends diagnostics, all with the code \<open>QNT101\<close>.\<close>

lemma recordConflict_frame:
  "heap (recordConflict s i e n) = heap s"
  "definitionsByName (recordConflict s i e n) = definitionsByName s"
  "currentModuleName (recordConflict s i e n) = currentModuleName s"
  "nextRef (recordConflict s i e n) = nextRef s"
  "definitionsByModule (recordConflict s i e n) = definitionsByModule s"
  by (simp_all add: recordConflict_def Let_def split: option.split)

lemma recordConflict_errors:
  "\<exists>new. errors (recordConflict s i e n) = errors s @ new \<and> (\<forall>x \<in> set new. code x = ''QNT101'')"
  by (simp add: recordConflict_def Let_def split: option.split)

lemma tagged_cong:
  "currentModuleName s' = currentModuleName s \<Longrightarrow> tagged B s' def imp = tagged B s def imp"
  by (simp add: tagged_def namespaces_from_def namespaces_of_def split: option.split)

text \<open>A \<open>Map\<close> built from entries binds every key to the last value given for it.\<close>

lemma map_of_fold_update:
  "map_of (fold (\<lambda>(k, v) m. AList.update k v m) es m) = map_of m ++ map_of (rev es)"
proof (induction es arbitrary: m)
  case Nil
  then show ?case by simp
next
  case (Cons e es)
  obtain k v where e: "e = (k, v)" by (cases e)
  show ?case
    by (simp add: e Cons.IH AList.update_conv' map_add_upd_left[symmetric] del: map_add_upd_left)
       (simp add: map_add_def fun_eq_iff split: option.split)
qed

lemma map_of_Map_new: "map_of (Map_new es) = map_of (rev es)"
  by (simp add: Map_new_def map_of_fold_update)

lemma map_of_rev_distinct:
  assumes "distinct (map fst es)"
  shows "map_of (rev es) = map_of es"
proof (rule ext)
  fix k
  have d: "distinct (map fst (rev es))" using assms by (simp add: rev_map[symmetric])
  show "map_of (rev es) k = map_of es k"
  proof (cases "map_of es k")
    case None
    then have "k \<notin> fst ` set es" by (simp add: map_of_eq_None_iff)
    then have "map_of (rev es) k = None" by (simp add: map_of_eq_None_iff)
    then show ?thesis using None by simp
  next
    case (Some v)
    then have "(k, v) \<in> set (rev es)" by (simp add: map_of_SomeD)
    then have "map_of (rev es) k = Some v" by (rule map_of_is_SomeI[OF d])
    then show ?thesis using Some by simp
  qed
qed

text \<open>The batch collection: what it leaves alone, what it records, what it binds.\<close>

lemma fold_conflictOfEntry_frame:
  "heap (fold (conflictOfEntry old) es s) = heap s
   \<and> definitionsByName (fold (conflictOfEntry old) es s) = definitionsByName s
   \<and> currentModuleName (fold (conflictOfEntry old) es s) = currentModuleName s
   \<and> nextRef (fold (conflictOfEntry old) es s) = nextRef s
   \<and> definitionsByModule (fold (conflictOfEntry old) es s) = definitionsByModule s"
  by (induction es arbitrary: s)
     (auto simp: conflictOfEntry_def recordConflict_frame split: option.split prod.split)

lemma conflictOfEntry_errors:
  "\<exists>new. errors (conflictOfEntry old e s) = errors s @ new
         \<and> (\<forall>x \<in> set new. code x = ''QNT101'')"
proof (cases e)
  case (Pair k def)
  show ?thesis
  proof (cases "map_of old k")
    case None
    then show ?thesis by (simp add: conflictOfEntry_def Pair)
  next
    case (Some existing)
    then show ?thesis
      using recordConflict_errors[of s k "Some (id_of existing)" "id_of def"]
      by (simp add: conflictOfEntry_def Pair)
  qed
qed

lemma fold_conflictOfEntry_errors:
  "\<exists>new. errors (fold (conflictOfEntry old) es s) = errors s @ new
         \<and> (\<forall>x \<in> set new. code x = ''QNT101'')"
proof (induction es arbitrary: s)
  case Nil
  then show ?case by simp
next
  case (Cons e es)
  obtain n1 where n1: "errors (conflictOfEntry old e s) = errors s @ n1"
      "\<forall>x \<in> set n1. code x = ''QNT101''"
    using conflictOfEntry_errors by blast
  obtain n2 where n2: "errors (fold (conflictOfEntry old) es (conflictOfEntry old e s))
       = errors (conflictOfEntry old e s) @ n2" "\<forall>x \<in> set n2. code x = ''QNT101''"
    using Cons.IH by blast
  show ?case using n1 n2 by (intro exI[of _ "n1 @ n2"]) auto
qed

lemma collectDefinitions_table:
  "table (collectDefinitions B s newDefs imp) =
     Map_new (table s @ map (\<lambda>(identifier, def). (identifier, tagged B s def imp)) newDefs)"
  by (simp add: collectDefinitions_def Let_def table_def)

lemma collectDefinitions_frame:
  "currentModuleName (collectDefinitions B s newDefs imp) = currentModuleName s"
  "definitionsByModule (collectDefinitions B s newDefs imp) = definitionsByModule s"
  "r \<noteq> nextRef s \<Longrightarrow> heap (collectDefinitions B s newDefs imp) r = heap s r"
  by (simp_all add: collectDefinitions_def Let_def fold_conflictOfEntry_frame)

lemma collectDefinitions_errors:
  "\<exists>new. errors (collectDefinitions B s newDefs imp) = errors s @ new
         \<and> (\<forall>x \<in> set new. code x = ''QNT101'')"
  using fold_conflictOfEntry_errors[of "table s" newDefs s]
  by (simp add: collectDefinitions_def Let_def)

lemma collectDefinitions_lookup:
  assumes "distinct (map fst newDefs)" and "map_of newDefs k = Some d"
  shows "getDefinition (collectDefinitions B s newDefs imp) k = Some (tagged B s d imp)"
proof -
  let ?f = "\<lambda>(identifier, def). (identifier, tagged B s def imp)"
  have m: "map fst (map ?f newDefs) = map fst newDefs" by (induction newDefs) auto
  have "distinct (map fst (map ?f newDefs))" using assms(1) by (simp only: m)
  then have "map_of (rev (map ?f newDefs)) k = map_of (map ?f newDefs) k"
    by (simp only: map_of_rev_distinct)
  also have "\<dots> = Some (tagged B s d imp)"
    using assms(2) by (induction newDefs) (auto split: if_splits)
  finally show ?thesis
    by (simp add: getDefinition_def collectDefinitions_table map_of_Map_new)
qed

text \<open>The diagnostics of \<open>collectDefinition\<close> all carry the code \<open>QNT101\<close>.\<close>

lemma collectDefinition_errors:
  "\<exists>new. errors (collectDefinition B s def imp) = errors s @ new
         \<and> (\<forall>x \<in> set new. code x = ''QNT101'')"
  using recordConflict_errors[of s "identifier_of def imp" None "source_of def imp"]
        recordConflict_errors[of s "identifier_of def imp" _ "source_of def imp"]
  by (auto simp: collectDefinition_def Let_def split: option.split)

subsection \<open>The discard name and deletion\<close>

text \<open>
  C9. The identifier \<open>_\<close> is never collected: when the binding identifier of a
  definition is \<open>_\<close>, \<open>collectDefinition\<close> returns the collector as it was, so the
  table is unchanged and no diagnostic is recorded, whatever \<open>_\<close> is bound to and
  whether or not \<open>_\<close> is among the built-in names.
\<close>

theorem collectDefinition_underscore:
  "identifier_of def imp = ''_'' \<Longrightarrow> collectDefinition B s def imp = s"
  by (simp add: collectDefinition_def)

theorem collectDefinition_underscore_witness:
  "identifier_of (mkDef ''var'' ''_'' 7) None = ''_''
   \<and> collectDefinition sampleBase (collectorWith ''A'' [(''_'', mkDef ''var'' ''_'' 3)])
         (mkDef ''var'' ''_'' 7) None
       = collectorWith ''A'' [(''_'', mkDef ''var'' ''_'' 3)]
   \<and> collectDefinition (sampleBase\<lparr>builtinNames := [''_'']\<rparr>) (collectorWith ''A'' [])
         (mkDef ''var'' ''_'' 7) None
       = collectorWith ''A'' []"
  using collectDefinition_underscore
          [of "mkDef ''var'' ''_'' 7" None sampleBase
              "collectorWith ''A'' [(''_'', mkDef ''var'' ''_'' 3)]"]
        collectDefinition_underscore
          [of "mkDef ''var'' ''_'' 7" None "sampleBase\<lparr>builtinNames := [''_'']\<rparr>"
              "collectorWith ''A'' []"]
  by (simp add: identifier_of_def mkDef_def)

text \<open>
  C10. \<open>deleteDefinition x\<close> affects the binding of \<open>x\<close> only: afterwards
  \<open>getDefinition x\<close> finds nothing, every other identifier is bound as before, the
  list of errors is the same, and deleting an identifier that is not bound changes
  nothing at all.
\<close>

theorem deleteDefinition_frame:
  "getDefinition (deleteDefinition s x) x = None
   \<and> (\<forall>y. y \<noteq> x \<longrightarrow> getDefinition (deleteDefinition s x) y = getDefinition s y)
   \<and> errors (deleteDefinition s x) = errors s
   \<and> (getDefinition s x = None \<longrightarrow> deleteDefinition s x = s)"
  by (auto simp: getDefinition_def deleteDefinition_def table_def AList.delete_conv'
        map_of_eq_None_iff)

theorem deleteDefinition_frame_witness:
  "getDefinition (deleteDefinition
       (collectorWith ''A'' [(''x'', mkDef ''var'' ''x'' 1), (''y'', mkDef ''var'' ''y'' 2)])
       ''x'') ''x'' = None
   \<and> getDefinition (deleteDefinition
       (collectorWith ''A'' [(''x'', mkDef ''var'' ''x'' 1), (''y'', mkDef ''var'' ''y'' 2)])
       ''x'') ''y'' = Some (mkDef ''var'' ''y'' 2)
   \<and> getDefinition
       (collectorWith ''A'' [(''x'', mkDef ''var'' ''x'' 1), (''y'', mkDef ''var'' ''y'' 2)])
       ''z'' = None
   \<and> deleteDefinition
       (collectorWith ''A'' [(''x'', mkDef ''var'' ''x'' 1), (''y'', mkDef ''var'' ''y'' 2)])
       ''z''
       = collectorWith ''A'' [(''x'', mkDef ''var'' ''x'' 1), (''y'', mkDef ''var'' ''y'' 2)]"
proof -
  let ?s = "collectorWith ''A'' [(''x'', mkDef ''var'' ''x'' 1), (''y'', mkDef ''var'' ''y'' 2)]"
  have y: "getDefinition ?s ''y'' = Some (mkDef ''var'' ''y'' 2)"
    and z: "getDefinition ?s ''z'' = None"
    by (simp_all add: getDefinition_def table_def collectorWith_def newCollector_def)
  from deleteDefinition_frame[of ?s "''x''"] deleteDefinition_frame[of ?s "''z''"] y z
  show ?thesis by simp
qed


subsection \<open>Collecting one definition\<close>

text \<open>
  The single collection keeps the first writer: when the identifier is bound to a
  definition of another identity (not \<open>0n\<close>), the collector only gains the two
  diagnostics, the first for the existing identity and the second for the source
  of the new definition.
\<close>

lemma collectDefinition_conflict:
  assumes "identifier_of def imp \<noteq> ''_''"
      and "identifier_of def imp \<notin> set (builtinNames B)"
      and "getDefinition s (identifier_of def imp) = Some existing"
      and "id_of existing \<noteq> id_of def" and "id_of existing \<noteq> 0"
  shows "collectDefinition B s def imp =
           s\<lparr>errors := errors s @
               [\<lparr>code = ''QNT101'',
                 message = ''Conflicting definitions found for name ''
                            @ quoted (identifier_of def imp)
                            @ '' in module '' @ quoted (currentModuleName s),
                 reference = id_of existing\<rparr>,
                \<lparr>code = ''QNT101'',
                 message = ''Conflicting definitions found for name ''
                            @ quoted (identifier_of def imp)
                            @ '' in module '' @ quoted (currentModuleName s),
                 reference = source_of def imp\<rparr>]\<rparr>"
  using assms
  by (simp add: collectDefinition_def getDefinition_def recordConflict_def truthy_bigint_def Let_def)










subsection \<open>Collecting a batch\<close>

text \<open>
  C1. On an identifier bound to a definition of another identity, the claim is that
  the existing entry stays, by \<open>collectDefinition\<close> and by \<open>collectDefinitions\<close>
  alike. The batch form records the two diagnostics and then binds the identifier to
  the new definition: with \<open>x\<close> bound to identity 1 and a batch that holds \<open>x\<close> with
  identity 2, the diagnostics refer to 1 and 2, and \<open>x\<close> is bound to identity 2.
  On the same table \<open>collectDefinition\<close> records the same two diagnostics and
  leaves \<open>x\<close> bound to identity 1.
\<close>

theorem collectDefinitions_overwrites:
  "map reference (errors (collectDefinitions sampleBase
       (collectorWith ''A'' [(''x'', mkDef ''var'' ''x'' 1)])
       [(''x'', mkDef ''var'' ''x'' 2)] (Some (mkDecl ''import'' 9 ''M'' None None [])))) = [1, 2]
   \<and> map_option id_of (getDefinition (collectDefinitions sampleBase
       (collectorWith ''A'' [(''x'', mkDef ''var'' ''x'' 1)])
       [(''x'', mkDef ''var'' ''x'' 2)] (Some (mkDecl ''import'' 9 ''M'' None None []))) ''x'') = Some 2
   \<and> map reference (errors (collectDefinition sampleBase
       (collectorWith ''A'' [(''x'', mkDef ''var'' ''x'' 1)]) (mkDef ''var'' ''x'' 2) None)) = [1, 2]
   \<and> map_option id_of (getDefinition (collectDefinition sampleBase
       (collectorWith ''A'' [(''x'', mkDef ''var'' ''x'' 1)]) (mkDef ''var'' ''x'' 2) None) ''x'') = Some 1"
  by (simp add: collectDefinitions_def collectDefinition_def conflictOfEntry_def recordConflict_def
        truthy_bigint_def Map_new_def tagged_def namespaces_from_def namespaces_of_def truthy_def
        addNamespacesToDef_spec_def qualifier_spec_def sample_defs Let_def)

text \<open>
  C2. The claim is that the batch form yields the table that the policy of
  \<open>collectDefinition\<close>, applied to each definition, yields. On the same input the
  entry by entry collection keeps identity 1 for \<open>x\<close>, the batch form binds
  identity 2.
\<close>

theorem collectDefinitions_not_collectEach:
  "map_option id_of (getDefinition (collectEach sampleBase
       (collectorWith ''A'' [(''x'', mkDef ''var'' ''x'' 1)])
       [(''x'', mkDef ''var'' ''x'' 2)] (Some (mkDecl ''import'' 9 ''M'' None None []))) ''x'') = Some 1
   \<and> map_option id_of (getDefinition (collectDefinitions sampleBase
       (collectorWith ''A'' [(''x'', mkDef ''var'' ''x'' 1)])
       [(''x'', mkDef ''var'' ''x'' 2)] (Some (mkDecl ''import'' 9 ''M'' None None []))) ''x'') = Some 2"
  by (simp add: collectEach_def collectDefinition_def collectDefinitions_def conflictOfEntry_def recordConflict_def truthy_bigint_def
        Map_new_def tagged_def namespaces_from_def namespaces_of_def truthy_def
        addNamespacesToDef_spec_def qualifier_spec_def sample_defs Let_def)

subsection \<open>Codes of the diagnostics\<close>

text \<open>
  C3 as stated fails: the diagnostic of a built-in redefinition and the diagnostics
  of a name conflict carry the same code \<open>QNT101\<close>.
\<close>

theorem conflict_and_builtin_share_code:
  "map code (emitted (collectorWith ''A'' [])
       (collectDefinition sampleBase (collectorWith ''A'' []) (mkDef ''const'' ''Nat'' 5) None))
     = [''QNT101'']
   \<and> map code (emitted (collectorWith ''A'' [(''x'', mkDef ''var'' ''x'' 1)])
       (collectDefinition sampleBase (collectorWith ''A'' [(''x'', mkDef ''var'' ''x'' 1)])
          (mkDef ''var'' ''x'' 2) None))
     = [''QNT101'', ''QNT101'']"
  by (simp add: emitted_def collectDefinition_def recordConflict_def truthy_bigint_def sample_defs Let_def)

text \<open>
  C3, amended. A diagnostic of a module redefinition carries the code \<open>QNT102\<close>,
  every diagnostic of \<open>collectDefinition\<close> and of \<open>collectDefinitions\<close> (name
  conflict or built-in redefinition) carries \<open>QNT101\<close>; so the code tells a module
  redefinition from the other two categories, which share theirs.
\<close>

theorem diagnostic_codes:
  assumes "e \<in> set (emitted s (enterModule s m))"
      and "e' \<in> set (emitted t (collectDefinition B t def imp))
                 \<union> set (emitted u (collectDefinitions B u newDefs imp'))"
  shows "code e = ''QNT102'' \<and> code e' = ''QNT101'' \<and> code e \<noteq> code e'"
proof -
  have 1: "code e = ''QNT102''"
    using assms(1) by (auto simp: emitted_def enterModule_def Let_def split: if_splits)
  obtain new where new: "errors (collectDefinition B t def imp) = errors t @ new"
      "\<forall>x \<in> set new. code x = ''QNT101''"
    using collectDefinition_errors by blast
  obtain new' where new': "errors (collectDefinitions B u newDefs imp') = errors u @ new'"
      "\<forall>x \<in> set new'. code x = ''QNT101''"
    using collectDefinitions_errors by blast
  have 2: "code e' = ''QNT101''" using assms(2) new new' by (auto simp: emitted_def)
  show ?thesis using 1 2 by simp
qed

theorem diagnostic_codes_witness:
  "\<lparr>code = ''QNT102'', message = ''Module with name '' @ quoted ''M'' @ '' was already defined'',
     reference = 30\<rparr>
     \<in> set (emitted (newCollector\<lparr>definitionsByModule := [(''M'', 0)]\<rparr>)
              (enterModule (newCollector\<lparr>definitionsByModule := [(''M'', 0)]\<rparr>)
                 \<lparr>mod_name = ''M'', mod_id = 30\<rparr>))
   \<and> \<lparr>code = ''QNT101'',
       message = ''Built-in name '' @ quoted ''Nat'' @ '' is redefined in module '' @ quoted ''A'',
       reference = 5\<rparr>
     \<in> set (emitted (collectorWith ''A'' [])
              (collectDefinition sampleBase (collectorWith ''A'' []) (mkDef ''const'' ''Nat'' 5) None))
   \<and> code \<lparr>code = ''QNT102'', message = ''Module with name '' @ quoted ''M'' @ '' was already defined'',
     reference = 30\<rparr> \<noteq> code \<lparr>code = ''QNT101'',
       message = ''Built-in name '' @ quoted ''Nat'' @ '' is redefined in module '' @ quoted ''A'',
       reference = 5\<rparr>"
proof -
  let ?e = "\<lparr>code = ''QNT102'', message = ''Module with name '' @ quoted ''M'' @ '' was already defined'',
     reference = 30\<rparr>"
  let ?e' = "\<lparr>code = ''QNT101'',
       message = ''Built-in name '' @ quoted ''Nat'' @ '' is redefined in module '' @ quoted ''A'',
       reference = 5\<rparr>"
  let ?s = "newCollector\<lparr>definitionsByModule := [(''M'', 0)]\<rparr>"
  let ?t = "collectorWith ''A'' []"
  have 1: "?e \<in> set (emitted ?s (enterModule ?s \<lparr>mod_name = ''M'', mod_id = 30\<rparr>))"
    by (simp add: emitted_def enterModule_def newCollector_def Let_def)
  have 2: "?e' \<in> set (emitted ?t (collectDefinition sampleBase ?t (mkDef ''const'' ''Nat'' 5) None))"
    by (simp add: emitted_def collectDefinition_def recordConflict_def truthy_bigint_def sample_defs Let_def)
  have 3: "?e' \<in> set (emitted ?t (collectDefinition sampleBase ?t (mkDef ''const'' ''Nat'' 5) None))
             \<union> set (emitted ?t (collectDefinitions sampleBase ?t [] None))"
    using 2 by simp
  from diagnostic_codes[OF 1 3] 1 2 show ?thesis by simp
qed

subsection \<open>Import, export and instance of a module\<close>

text \<open>
  C5. Inside module \<open>A\<close>, an import, an export or an instance whose module name is
  \<open>A\<close> records exactly one error, the self reference, and changes nothing else:
  the table, the store and the registry are as before.
\<close>

theorem self_reference:
  assumes "protoName decl = currentModuleName s"
  shows "enterImport B s decl = s\<lparr>errors := errors s @ [selfReferenceError B decl]\<rparr>
       \<and> enterExport B s decl = s\<lparr>errors := errors s @ [selfReferenceError B decl]\<rparr>
       \<and> enterInstance B s decl = s\<lparr>errors := errors s @ [selfReferenceError B decl]\<rparr>"
  using assms by (simp add: enterImport_def enterExport_def enterInstance_def)

theorem self_reference_witness:
  "protoName (mkDecl ''import'' 9 ''A'' None None []) = currentModuleName (collectorWith ''A'' [])
   \<and> enterImport sampleBase (collectorWith ''A'' []) (mkDecl ''import'' 9 ''A'' None None [])
       = (collectorWith ''A'' [])\<lparr>errors := [importError ''SELF-REFERENCE'' (mkDecl ''import'' 9 ''A'' None None [])]\<rparr>
   \<and> enterExport sampleBase (collectorWith ''A'' []) (mkDecl ''import'' 9 ''A'' None None [])
       = (collectorWith ''A'' [])\<lparr>errors := [importError ''SELF-REFERENCE'' (mkDecl ''import'' 9 ''A'' None None [])]\<rparr>
   \<and> enterInstance sampleBase (collectorWith ''A'' []) (mkDecl ''import'' 9 ''A'' None None [])
       = (collectorWith ''A'' [])\<lparr>errors := [importError ''SELF-REFERENCE'' (mkDecl ''import'' 9 ''A'' None None [])]\<rparr>"
proof -
  have 1: "protoName (mkDecl ''import'' 9 ''A'' None None []) = currentModuleName (collectorWith ''A'' [])"
    by (simp add: sample_defs)
  have 2: "errors (collectorWith ''A'' []) = []"
      "selfReferenceError sampleBase = importError ''SELF-REFERENCE''"
    by (simp_all add: sample_defs)
  from self_reference[OF 1, of sampleBase] 1 show ?thesis by (simp add: 2)
qed

text \<open>
  C8 as stated fails: an import or export of the current module names a module that
  is not in the registry, and the error recorded is the self reference, not
  \<open>MODULE-NOT-FOUND\<close>.
\<close>

theorem self_import_not_module_not_found:
  "map_of (definitionsByModule (collectorWith ''A'' []))
       (protoName (mkDecl ''import'' 9 ''A'' None None [])) = None
   \<and> map code (errors (enterImport sampleBase (collectorWith ''A'' [])
         (mkDecl ''import'' 9 ''A'' None None []))) = [''SELF-REFERENCE'']
   \<and> map code (errors (enterExport sampleBase (collectorWith ''A'' [])
         (mkDecl ''export'' 9 ''A'' None None []))) = [''SELF-REFERENCE'']
   \<and> code (moduleNotFoundError sampleBase (mkDecl ''import'' 9 ''A'' None None [])) = ''MODULE-NOT-FOUND''"
  by (simp add: enterImport_def enterExport_def sample_defs)

text \<open>
  C8, amended. An import or export that names a module other than the current one
  and absent from the registry records one error, \<open>moduleNotFoundError\<close>, and
  returns: the table, the store and the registry are unchanged.
\<close>

theorem module_not_found:
  assumes "protoName decl \<noteq> currentModuleName s"
      and "map_of (definitionsByModule s) (protoName decl) = None"
  shows "enterImport B s decl = s\<lparr>errors := errors s @ [moduleNotFoundError B decl]\<rparr>
       \<and> enterExport B s decl = s\<lparr>errors := errors s @ [moduleNotFoundError B decl]\<rparr>"
  using assms by (simp add: enterImport_def enterExport_def)

theorem module_not_found_witness:
  "protoName (mkDecl ''import'' 9 ''M'' None None []) \<noteq> currentModuleName (collectorWith ''A'' [])
   \<and> map_of (definitionsByModule (collectorWith ''A'' [])) (protoName (mkDecl ''import'' 9 ''M'' None None [])) = None
   \<and> enterImport sampleBase (collectorWith ''A'' []) (mkDecl ''import'' 9 ''M'' None None [])
       = (collectorWith ''A'' [])\<lparr>errors := [importError ''MODULE-NOT-FOUND'' (mkDecl ''import'' 9 ''M'' None None [])]\<rparr>
   \<and> enterExport sampleBase (collectorWith ''A'' []) (mkDecl ''import'' 9 ''M'' None None [])
       = (collectorWith ''A'' [])\<lparr>errors := [importError ''MODULE-NOT-FOUND'' (mkDecl ''import'' 9 ''M'' None None [])]\<rparr>"
proof -
  have 1: "protoName (mkDecl ''import'' 9 ''M'' None None []) \<noteq> currentModuleName (collectorWith ''A'' [])"
    and 2: "map_of (definitionsByModule (collectorWith ''A'' [])) (protoName (mkDecl ''import'' 9 ''M'' None None [])) = None"
    by (simp_all add: sample_defs)
  have 3: "errors (collectorWith ''A'' []) = []"
      "moduleNotFoundError sampleBase = importError ''MODULE-NOT-FOUND''"
    by (simp_all add: sample_defs)
  from module_not_found[OF 1 2, of sampleBase] 1 2 show ?thesis by (simp add: 3)
qed


subsection \<open>Overrides of an instance\<close>

lemma applyOverride_frame:
  "nextRef (applyOverride B decl r ov s) = nextRef s"
  "definitionsByName (applyOverride B decl r ov s) = definitionsByName s"
  "definitionsByModule (applyOverride B decl r ov s) = definitionsByModule s"
  "currentModuleName (applyOverride B decl r ov s) = currentModuleName s"
  by (simp_all add: applyOverride_def split: prod.split option.split)

lemma applyOverride_errors:
  "\<exists>new. errors (applyOverride B decl r ov s) = errors s @ new"
  by (simp add: applyOverride_def split: prod.split option.split)

text \<open>One override keeps the keys and the kinds of the instance table; it changes at most
  the identity bound to its own parameter.\<close>

lemma applyOverride_lookup:
  "map_of (heap (applyOverride B decl r (param, ex) s) r) k =
     (case map_of (heap s r) k of
        None \<Rightarrow> None
      | Some cd \<Rightarrow>
          if k = param_name param \<and> kind cd = ''const'' then Some (cd\<lparr>id_of := ex_id ex\<rparr>)
          else Some cd)"
  by (auto simp: applyOverride_def AList.update_conv' split: option.split)

lemma fold_applyOverride_frame:
  "nextRef (fold (applyOverride B decl r) ovs s) = nextRef s
   \<and> definitionsByName (fold (applyOverride B decl r) ovs s) = definitionsByName s
   \<and> definitionsByModule (fold (applyOverride B decl r) ovs s) = definitionsByModule s
   \<and> currentModuleName (fold (applyOverride B decl r) ovs s) = currentModuleName s"
  by (induction ovs arbitrary: s) (simp_all add: applyOverride_frame)

lemma fold_applyOverride_errors:
  "\<exists>new. errors (fold (applyOverride B decl r) ovs s) = errors s @ new"
proof (induction ovs arbitrary: s)
  case Nil
  then show ?case by simp
next
  case (Cons ov ovs)
  obtain n1 where "errors (applyOverride B decl r ov s) = errors s @ n1"
    using applyOverride_errors by blast
  moreover obtain n2 where "errors (fold (applyOverride B decl r) ovs (applyOverride B decl r ov s))
      = errors (applyOverride B decl r ov s) @ n2"
    using Cons.IH by blast
  ultimately show ?case by simp
qed

lemma fold_applyOverride_None:
  "map_of (heap s r) k = None \<Longrightarrow> map_of (heap (fold (applyOverride B decl r) ovs s) r) k = None"
proof (induction ovs arbitrary: s)
  case Nil
  then show ?case by simp
next
  case (Cons ov ovs)
  obtain param ex where ov: "ov = (param, ex)" by (cases ov)
  have "map_of (heap (applyOverride B decl r ov s) r) k = None"
    using Cons.prems by (simp add: ov applyOverride_lookup)
  then show ?case using Cons.IH by simp
qed

lemma fold_applyOverride_not_const:
  "map_of (heap s r) k = Some cd \<Longrightarrow> kind cd \<noteq> ''const'' \<Longrightarrow>
     map_of (heap (fold (applyOverride B decl r) ovs s) r) k = Some cd"
proof (induction ovs arbitrary: s)
  case Nil
  then show ?case by simp
next
  case (Cons ov ovs)
  obtain param ex where ov: "ov = (param, ex)" by (cases ov)
  have "map_of (heap (applyOverride B decl r ov s) r) k = Some cd"
    using Cons.prems by (simp add: ov applyOverride_lookup)
  then show ?case using Cons.IH Cons.prems(2) by simp
qed

lemma fold_applyOverride_const:
  "map_of (heap s r) k = Some cd \<Longrightarrow> kind cd = ''const'' \<Longrightarrow>
     \<exists>i. map_of (heap (fold (applyOverride B decl r) ovs s) r) k = Some (cd\<lparr>id_of := i\<rparr>)"
proof (induction ovs arbitrary: s cd)
  case Nil
  then show ?case by (intro exI[of _ "id_of cd"]) simp
next
  case (Cons ov ovs)
  obtain param ex where ov: "ov = (param, ex)" by (cases ov)
  let ?s = "applyOverride B decl r ov s"
  show ?case
  proof (cases "k = param_name param")
    case True
    then have "map_of (heap ?s r) k = Some (cd\<lparr>id_of := ex_id ex\<rparr>)"
      using Cons.prems by (simp add: ov applyOverride_lookup)
    from Cons.IH[OF this] Cons.prems(2) show ?thesis by simp
  next
    case False
    then have "map_of (heap ?s r) k = Some cd"
      using Cons.prems by (simp add: ov applyOverride_lookup)
    from Cons.IH[OF this] Cons.prems(2) show ?thesis by simp
  qed
qed

lemma fold_applyOverride_other:
  "k \<notin> param_name ` fst ` set ovs \<Longrightarrow>
     map_of (heap (fold (applyOverride B decl r) ovs s) r) k = map_of (heap s r) k"
proof (induction ovs arbitrary: s)
  case Nil
  then show ?case by simp
next
  case (Cons ov ovs)
  obtain param ex where ov: "ov = (param, ex)" by (cases ov)
  have "map_of (heap (applyOverride B decl r ov s) r) k = map_of (heap s r) k"
    using Cons.prems by (auto simp: ov applyOverride_lookup split: option.split)
  then show ?case using Cons.IH Cons.prems by simp
qed


text \<open>
  The helpers as the specification describes them: tagging keeps the identity, and
  the copier binds the qualified name of an entry to that entry when the table has
  no entry of that very name.
\<close>

lemma distinct_fold_update:
  "distinct (map fst m) \<Longrightarrow> distinct (map fst (fold (\<lambda>(k, v) m. AList.update k v m) es m))"
  by (induction es arbitrary: m) (auto simp: AList.distinct_update)

lemma distinct_Map_new: "distinct (map fst (Map_new es))"
  by (simp add: Map_new_def distinct_fold_update)

lemma addNamespacesToDef_spec_id: "id_of (addNamespacesToDef_spec d nss) = id_of d"
  by (simp add: addNamespacesToDef_spec_def)

lemma copyNames_spec_distinct: "distinct (map fst (copyNames_spec t namespace unhide))"
  by (simp add: copyNames_spec_def distinct_Map_new)

lemma copyNames_spec_qualified:
  assumes "distinct (map fst t)" and "q \<noteq> []" and "q @ ''::'' @ c \<notin> fst ` set t"
  shows "map_of (copyNames_spec t (Some q) unhide) (q @ ''::'' @ c) = map_of t c"
proof -
  let ?f = "\<lambda>(n, def). (q @ ''::'' @ n, def) #
             (if unhide = Some True \<and> (namespaces def = None \<or> namespaces def = Some [])
              then [(n, def)] else [])"
  have "map_of (rev (concat (map ?f t))) (q @ ''::'' @ c) = map_of t c"
    using assms(1,3)
  proof (induction t)
    case Nil
    then show ?case by simp
  next
    case (Cons e t)
    obtain n d where e: "e = (n, d)" by (cases e)
    from Cons.prems have IH: "map_of (rev (concat (map ?f t))) (q @ ''::'' @ c) = map_of t c"
      by (intro Cons.IH) auto
    from Cons.prems have nk: "n \<noteq> q @ ''::'' @ c" and nt: "n \<notin> fst ` set t"
      by (auto simp: e)
    show ?case
    proof (cases "n = c")
      case True
      with nt have "map_of t c = None" by (simp add: map_of_eq_None_iff)
      with IH True nk show ?thesis by (auto simp: e map_add_def)
    next
      case False
      with IH nk show ?thesis by (auto simp: e map_add_def split: option.split)
    qed
  qed
  then show ?thesis using assms(2) by (simp add: copyNames_spec_def truthy_def map_of_Map_new)
qed


lemma fold_applyOverride_distinct:
  "distinct (map fst (heap s r)) \<Longrightarrow>
     distinct (map fst (heap (fold (applyOverride B decl r) ovs s) r))"
proof (induction ovs arbitrary: s)
  case Nil
  then show ?case by simp
next
  case (Cons ov ovs)
  have "distinct (map fst (heap (applyOverride B decl r ov s) r))"
    using Cons.prems
    by (auto simp: applyOverride_def AList.distinct_update split: prod.split option.split)
  then show ?case using Cons.IH by simp
qed

lemma enterInstance_registered:
  assumes "protoName decl \<noteq> currentModuleName s"
      and "map_of (definitionsByModule s) (protoName decl) = Some moduleTable"
  shows "enterInstance B s decl =
           collectDefinitions B
             (fold (applyOverride B decl (nextRef s)) (overrides decl) (instanceStart s decl moduleTable))
             (copyNames B
                (heap (fold (applyOverride B decl (nextRef s)) (overrides decl)
                         (instanceStart s decl moduleTable)) (nextRef s))
                (qualifiedName decl) (Some True))
             (Some decl)"
  using assms by (simp add: enterInstance_def instanceStart_def Let_def)

lemma instanceStart_facts:
  "heap (instanceStart s decl moduleTable) (nextRef s) = Map_new (heap s moduleTable)"
  "nextRef (instanceStart s decl moduleTable) = Suc (nextRef s)"
  "currentModuleName (instanceStart s decl moduleTable) = currentModuleName s"
  "errors (instanceStart s decl moduleTable) = errors s"
  by (simp_all add: instanceStart_def Let_def)


text \<open>The scenario, evaluated.\<close>

lemma inClient_eq:
  "inClient = \<lparr>heap = (\<lambda>r. [])(1 := [(''limit'', (mkDef ''const'' ''limit'' 1)\<lparr>namespaces := Some []\<rparr>),
                                  (''balance'', (mkDef ''var'' ''balance'' 2)\<lparr>namespaces := Some []\<rparr>)]),
     nextRef = 3, definitionsByName = 2, definitionsByModule = [(''Bank'', 1)],
     errors = [], definitionDepth = -1, currentModuleName = ''Client''\<rparr>"
  by (simp add: inClient_def enterModule_def exitModule_def enterVar_def enterConst_def
       collectDefinition_def bankModule_def clientModule_def tagged_def namespaces_from_def
       addNamespacesToDef_spec_def sample_defs Let_def fun_eq_iff)

lemma instanceB2_heap:
  "heap (enterInstance sampleBase inClient instanceB2) 3 =
     [(''limit'', (mkDef ''const'' ''limit'' 1)\<lparr>namespaces := Some [], id_of := 100\<rparr>),
      (''balance'', (mkDef ''var'' ''balance'' 2)\<lparr>namespaces := Some []\<rparr>)]"
  by (simp add: inClient_eq instanceB2_def enterInstance_def applyOverride_def
       collectDefinitions_def fold_conflictOfEntry_frame Map_new_def truthy_def sample_defs Let_def)


text \<open>
  C4 as stated fails in two cases. An override that a later override of the same
  declaration repeats: with \<open>limit\<close> overridden by the expressions 100 and then
  200, the entry of the instance for \<open>limit\<close>, also under \<open>B2::limit\<close>, has the
  identity 200, not the identity 100 of the first override. An instance of the
  current module, when a module of that name is registered: the override names a
  parameter absent from that table, and the only error recorded is the self
  reference.
\<close>

theorem override_exceptions:
  "map_option kind (map_of (Map_new (heap inClient 1)) ''limit'') = Some ''const''
   \<and> map_option id_of (map_of (heap (enterInstance sampleBase inClient instanceTwice) 3) ''limit'')
       = Some 200
   \<and> map_option id_of (getDefinition (enterInstance sampleBase inClient instanceTwice) ''B2::limit'')
       = Some 200
   \<and> map_of (definitionsByModule clientAgain) (protoName instanceSelf) = Some 1
   \<and> map_of (Map_new (heap clientAgain 1)) ''missing'' = None
   \<and> map code (emitted clientAgain (enterInstance sampleBase clientAgain instanceSelf))
       = [''SELF-REFERENCE'']"
proof -
  have twice:
    "map_option kind (map_of (Map_new (heap inClient 1)) ''limit'') = Some ''const''
     \<and> map_option id_of (map_of (heap (enterInstance sampleBase inClient instanceTwice) 3) ''limit'')
         = Some 200
     \<and> map_option id_of (getDefinition (enterInstance sampleBase inClient instanceTwice) ''B2::limit'')
         = Some 200"
    by (simp add: inClient_eq instanceTwice_def enterInstance_def applyOverride_def
         collectDefinitions_def fold_conflictOfEntry_frame copyNames_spec_def conflictOfEntry_def
         tagged_def namespaces_from_def namespaces_of_def compact_def addNamespacesToDef_spec_def
         Map_new_def truthy_def sample_defs Let_def)
  have self:
    "map_of (definitionsByModule clientAgain) (protoName instanceSelf) = Some 1
     \<and> map_of (Map_new (heap clientAgain 1)) ''missing'' = None
     \<and> map code (emitted clientAgain (enterInstance sampleBase clientAgain instanceSelf))
         = [''SELF-REFERENCE'']"
    by (simp add: clientAgain_def instanceSelf_def clientModule_def enterModule_def exitModule_def
         enterInstance_def emitted_def Map_new_def sample_defs Let_def)
  from twice self show ?thesis by (simp only: simp_thms)
qed

text \<open>
  C4, amended. Let an instance declaration of a registered module \<open>M\<close>, other than
  the current module, hold the override \<open>(param, ex)\<close>. If \<open>param\<close> is absent from the
  clone of the table of \<open>M\<close>, \<open>paramNotFoundError\<close> is recorded; if it is bound to a
  definition whose kind is not \<open>const\<close>, \<open>paramIsNotAConstantError\<close> is recorded; in both
  cases the override leaves every table as it is, and the instance table binds
  \<open>param\<close> as the clone did. If \<open>param\<close> is bound to a constant and no later
  override of the declaration names it again, the entry of the instance for that
  constant has the identity of \<open>ex\<close>: in the instance table, and in the current table
  under every name under which \<open>copyNames\<close> copies the entry with its identity,
  \<open>addNamespacesToDef\<close> keeping identities, when that name is not already bound
  there to a definition of another identity. With \<open>copyNames\<close> and
  \<open>addNamespacesToDef\<close> as the specification describes them, such a name is
  \<open>I::c\<close> for the qualifier \<open>I\<close> and the constant \<open>c\<close>, when the table of \<open>M\<close> has
  no entry of that very name. What the current table binds under a name that was
  bound to another identity is left open here.
\<close>

theorem enterInstance_override:
  assumes ns: "protoName decl \<noteq> currentModuleName s"
      and reg: "map_of (definitionsByModule s) (protoName decl) = Some moduleTable"
      and ovs: "overrides decl = pre @ (param, ex) # post"
  shows "(map_of (Map_new (heap s moduleTable)) (param_name param) = None \<longrightarrow>
            paramNotFoundError B decl param \<in> set (emitted s (enterInstance B s decl))
            \<and> map_of (heap (enterInstance B s decl) (nextRef s)) (param_name param) = None)
       \<and> (\<forall>cd. map_of (Map_new (heap s moduleTable)) (param_name param) = Some cd
                \<and> kind cd \<noteq> ''const'' \<longrightarrow>
            paramIsNotAConstantError B decl param \<in> set (emitted s (enterInstance B s decl))
            \<and> map_of (heap (enterInstance B s decl) (nextRef s)) (param_name param) = Some cd)
       \<and> (\<forall>cd. map_of (Map_new (heap s moduleTable)) (param_name param) = Some cd
                \<and> kind cd = ''const'' \<and> param_name param \<notin> param_name ` fst ` set post \<longrightarrow>
            map_of (heap (enterInstance B s decl) (nextRef s)) (param_name param)
              = Some (cd\<lparr>id_of := ex_id ex\<rparr>))
       \<and> (\<forall>k d. distinct (map fst (copyNames B (heap (enterInstance B s decl) (nextRef s))
                                      (qualifiedName decl) (Some True)))
                \<and> map_of (copyNames B (heap (enterInstance B s decl) (nextRef s))
                                      (qualifiedName decl) (Some True)) k = Some d
                \<and> (\<forall>e. getDefinition s k = Some e \<longrightarrow> id_of e = id_of d) \<longrightarrow>
            getDefinition (enterInstance B s decl) k = Some (tagged B s d (Some decl)))
       \<and> (\<forall>k cd. map_of (Map_new (heap s moduleTable)) (param_name param) = Some cd
                \<and> kind cd = ''const'' \<and> param_name param \<notin> param_name ` fst ` set post
                \<and> distinct (map fst (copyNames B (heap (enterInstance B s decl) (nextRef s))
                                      (qualifiedName decl) (Some True)))
                \<and> map_option id_of
                      (map_of (copyNames B (heap (enterInstance B s decl) (nextRef s))
                                      (qualifiedName decl) (Some True)) k)
                    = map_option id_of
                        (map_of (heap (enterInstance B s decl) (nextRef s)) (param_name param))
                \<and> (\<forall>d nss. id_of (addNamespacesToDef B d nss) = id_of d)
                \<and> (\<forall>e. getDefinition s k = Some e \<longrightarrow> id_of e = ex_id ex) \<longrightarrow>
            map_option id_of (getDefinition (enterInstance B s decl) k) = Some (ex_id ex))
       \<and> (\<forall>q cd. copyNames B = copyNames_spec \<and> addNamespacesToDef B = addNamespacesToDef_spec
                \<and> qualifiedName decl = Some q \<and> q \<noteq> []
                \<and> map_of (Map_new (heap s moduleTable)) (param_name param) = Some cd
                \<and> kind cd = ''const'' \<and> param_name param \<notin> param_name ` fst ` set post
                \<and> map_of (Map_new (heap s moduleTable)) (q @ ''::'' @ param_name param) = None
                \<and> (\<forall>e. getDefinition s (q @ ''::'' @ param_name param) = Some e \<longrightarrow>
                       id_of e = ex_id ex) \<longrightarrow>
            map_option id_of (getDefinition (enterInstance B s decl) (q @ ''::'' @ param_name param))
              = Some (ex_id ex))
       \<and> (\<forall>t. map_of (heap t (nextRef s)) (param_name param) = None
                \<or> (\<exists>cd. map_of (heap t (nextRef s)) (param_name param) = Some cd
                         \<and> kind cd \<noteq> ''const'') \<longrightarrow>
            heap (applyOverride B decl (nextRef s) (param, ex) t) = heap t)"
    (is "?absent \<and> ?notConst \<and> ?const \<and> ?copied \<and> ?identity \<and> ?qualified \<and> ?frame")
proof -
  let ?r = "nextRef s"
  let ?p = "param_name param"
  let ?step = "applyOverride B decl ?r"
  let ?s2 = "instanceStart s decl moduleTable"
  let ?t = "fold ?step pre ?s2"
  let ?u = "?step (param, ex) ?t"
  let ?s3 = "fold ?step (overrides decl) ?s2"
  let ?s' = "enterInstance B s decl"
  let ?newDefs = "copyNames B (heap ?s3 ?r) (qualifiedName decl) (Some True)"
  have s': "?s' = collectDefinitions B ?s3 ?newDefs (Some decl)"
    by (rule enterInstance_registered[OF ns reg])
  have s3: "?s3 = fold ?step post ?u" by (simp add: ovs)
  have next3: "nextRef ?s3 = Suc ?r"
    by (simp add: fold_applyOverride_frame instanceStart_facts)
  have heap': "heap ?s' ?r = heap ?s3 ?r"
    by (subst s') (simp add: collectDefinitions_frame next3)
  have cm3: "currentModuleName ?s3 = currentModuleName s"
    by (simp add: fold_applyOverride_frame instanceStart_facts)
  obtain n1 where n1: "errors ?t = errors s @ n1"
    using fold_applyOverride_errors[of B decl ?r pre ?s2] by (auto simp: instanceStart_facts)
  obtain n3 where n3: "errors ?s3 = errors ?u @ n3"
    using fold_applyOverride_errors[of B decl ?r post ?u] by (auto simp: s3)
  obtain n4 where n4: "errors ?s' = errors ?s3 @ n4"
    using collectDefinitions_errors[of B ?s3 ?newDefs "Some decl"] by (auto simp: s')
  have recorded: "x \<in> set (emitted s ?s')" if "errors ?u = errors ?t @ [x]" for x
    using that n1 n3 n4 by (simp add: emitted_def)
  have A: "paramNotFoundError B decl param \<in> set (emitted s ?s')
           \<and> map_of (heap ?s' ?r) ?p = None"
    if none: "map_of (Map_new (heap s moduleTable)) ?p = None"
  proof -
    have t: "map_of (heap ?t ?r) ?p = None"
      using none by (intro fold_applyOverride_None) (simp add: instanceStart_facts)
    then have "errors ?u = errors ?t @ [paramNotFoundError B decl param]"
      by (simp add: applyOverride_def)
    then have 1: "paramNotFoundError B decl param \<in> set (emitted s ?s')" by (rule recorded)
    have "map_of (heap ?s3 ?r) ?p = None"
      using none by (intro fold_applyOverride_None) (simp add: instanceStart_facts)
    with 1 show ?thesis by (simp add: heap')
  qed
  have Bc: "paramIsNotAConstantError B decl param \<in> set (emitted s ?s')
           \<and> map_of (heap ?s' ?r) ?p = Some cd"
    if some: "map_of (Map_new (heap s moduleTable)) ?p = Some cd" and nc: "kind cd \<noteq> ''const''"
    for cd
  proof -
    have t: "map_of (heap ?t ?r) ?p = Some cd"
      using some nc by (intro fold_applyOverride_not_const) (simp_all add: instanceStart_facts)
    then have "errors ?u = errors ?t @ [paramIsNotAConstantError B decl param]"
      using nc by (simp add: applyOverride_def)
    then have 1: "paramIsNotAConstantError B decl param \<in> set (emitted s ?s')" by (rule recorded)
    have "map_of (heap ?s3 ?r) ?p = Some cd"
      using some nc by (intro fold_applyOverride_not_const) (simp_all add: instanceStart_facts)
    with 1 show ?thesis by (simp add: heap')
  qed
  have C: "map_of (heap ?s' ?r) ?p = Some (cd\<lparr>id_of := ex_id ex\<rparr>)"
    if some: "map_of (Map_new (heap s moduleTable)) ?p = Some cd" and c: "kind cd = ''const''"
      and last: "?p \<notin> param_name ` fst ` set post"
    for cd
  proof -
    obtain i where t: "map_of (heap ?t ?r) ?p = Some (cd\<lparr>id_of := i\<rparr>)"
      using fold_applyOverride_const[of ?s2 ?r ?p cd B decl pre] some c
      by (auto simp: instanceStart_facts)
    have u: "map_of (heap ?u ?r) ?p = Some (cd\<lparr>id_of := ex_id ex\<rparr>)"
      using t c by (simp add: applyOverride_lookup)
    have "map_of (heap ?s3 ?r) ?p = map_of (heap ?u ?r) ?p"
      unfolding s3 by (rule fold_applyOverride_other[OF last])
    with u show ?thesis by (simp add: heap')
  qed
  have D: "getDefinition ?s' k = Some (tagged B s d (Some decl))"
    if "distinct (map fst (copyNames B (heap ?s' ?r) (qualifiedName decl) (Some True)))"
      and "map_of (copyNames B (heap ?s' ?r) (qualifiedName decl) (Some True)) k = Some d"
    for k d
  proof -
    from that have "distinct (map fst ?newDefs)" "map_of ?newDefs k = Some d"
      by (simp_all add: heap')
    then have "getDefinition ?s' k = Some (tagged B ?s3 d (Some decl))"
      by (subst s') (rule collectDefinitions_lookup)
    then show ?thesis by (simp add: tagged_cong[OF cm3])
  qed
  have I: "map_option id_of (getDefinition ?s' k) = Some (ex_id ex)"
    if some: "map_of (Map_new (heap s moduleTable)) ?p = Some cd" and c: "kind cd = ''const''"
      and last: "?p \<notin> param_name ` fst ` set post"
      and dist: "distinct (map fst (copyNames B (heap ?s' ?r) (qualifiedName decl) (Some True)))"
      and copied: "map_option id_of
                      (map_of (copyNames B (heap ?s' ?r) (qualifiedName decl) (Some True)) k)
                    = map_option id_of (map_of (heap ?s' ?r) ?p)"
      and keeps: "\<forall>d nss. id_of (addNamespacesToDef B d nss) = id_of d"
    for k cd
  proof -
    have inst: "map_option id_of (map_of (heap ?s' ?r) ?p) = Some (ex_id ex)"
      by (simp add: C[OF some c last])
    with copied
    have "map_option id_of
            (map_of (copyNames B (heap ?s' ?r) (qualifiedName decl) (Some True)) k)
          = Some (ex_id ex)"
      by (simp only:)
    then obtain d
      where d: "map_of (copyNames B (heap ?s' ?r) (qualifiedName decl) (Some True)) k = Some d"
        and idd: "id_of d = ex_id ex"
      by (auto simp only: map_option_eq_Some)
    have "id_of (tagged B s d (Some decl)) = id_of d"
      using keeps by (simp add: tagged_def)
    with D[OF dist d] idd show ?thesis by simp
  qed
  have E: "heap (applyOverride B decl ?r (param, ex) t) = heap t"
    if "map_of (heap t ?r) ?p = None
        \<or> (\<exists>cd. map_of (heap t ?r) ?p = Some cd \<and> kind cd \<noteq> ''const'')"
    for t
    using that by (auto simp: applyOverride_def)
  have 1: ?absent using A by blast
  have 2: ?notConst using Bc by blast
  have 3: ?const using C by blast
  have 4: ?copied
  proof (intro allI impI, elim conjE)
    fix k d
    assume "distinct (map fst (copyNames B (heap ?s' ?r) (qualifiedName decl) (Some True)))"
      and "map_of (copyNames B (heap ?s' ?r) (qualifiedName decl) (Some True)) k = Some d"
    then show "getDefinition ?s' k = Some (tagged B s d (Some decl))" by (rule D)
  qed
  have 5: ?identity
  proof (intro allI impI, elim conjE)
    fix k cd
    assume "map_of (Map_new (heap s moduleTable)) ?p = Some cd" "kind cd = ''const''"
      "?p \<notin> param_name ` fst ` set post"
      "distinct (map fst (copyNames B (heap ?s' ?r) (qualifiedName decl) (Some True)))"
      "map_option id_of
         (map_of (copyNames B (heap ?s' ?r) (qualifiedName decl) (Some True)) k)
       = map_option id_of (map_of (heap ?s' ?r) ?p)"
      "\<forall>d nss. id_of (addNamespacesToDef B d nss) = id_of d"
    then show "map_option id_of (getDefinition ?s' k) = Some (ex_id ex)" by (rule I)
  qed
  have 6: ?qualified
  proof (intro allI impI, elim conjE)
    fix q cd
    assume cn: "copyNames B = copyNames_spec"
      and an: "addNamespacesToDef B = addNamespacesToDef_spec"
      and q: "qualifiedName decl = Some q" "q \<noteq> []"
      and some: "map_of (Map_new (heap s moduleTable)) ?p = Some cd" and c: "kind cd = ''const''"
      and last: "?p \<notin> param_name ` fst ` set post"
      and fresh: "map_of (Map_new (heap s moduleTable)) (q @ ''::'' @ ?p) = None"
    have d2: "distinct (map fst (heap ?s2 ?r))"
      by (simp add: instanceStart_facts distinct_Map_new)
    have d3: "distinct (map fst (heap ?s' ?r))"
      unfolding heap' by (rule fold_applyOverride_distinct[OF d2])
    have "map_of (heap ?s3 ?r) (q @ ''::'' @ ?p) = None"
      using fresh by (intro fold_applyOverride_None) (simp add: instanceStart_facts)
    then have f3: "q @ ''::'' @ ?p \<notin> fst ` set (heap ?s' ?r)"
      by (simp add: heap' map_of_eq_None_iff)
    have dist: "distinct (map fst (copyNames B (heap ?s' ?r) (qualifiedName decl) (Some True)))"
      by (simp add: cn copyNames_spec_distinct)
    have copied: "map_option id_of
                      (map_of (copyNames B (heap ?s' ?r) (qualifiedName decl) (Some True))
                         (q @ ''::'' @ ?p))
                    = map_option id_of (map_of (heap ?s' ?r) ?p)"
      by (simp only: cn q copyNames_spec_qualified[OF d3 q(2) f3])
    have keeps: "\<forall>d nss. id_of (addNamespacesToDef B d nss) = id_of d"
      by (simp add: an addNamespacesToDef_spec_id)
    show "map_option id_of (getDefinition ?s' (q @ ''::'' @ ?p)) = Some (ex_id ex)"
      by (rule I[OF some c last dist copied keeps])
  qed
  have 7: ?frame using E by blast
  from 1 2 3 4 5 6 7 show ?thesis by (intro conjI)
qed



theorem enterInstance_override_witness:
  "protoName instanceB2 \<noteq> currentModuleName inClient
   \<and> map_of (definitionsByModule inClient) (protoName instanceB2) = Some 1
   \<and> map_of (heap (enterInstance sampleBase inClient instanceB2) (nextRef inClient)) ''limit''
       = Some ((mkDef ''const'' ''limit'' 1)\<lparr>namespaces := Some [], id_of := 100\<rparr>)
   \<and> map_option id_of (getDefinition (enterInstance sampleBase inClient instanceB2) ''B2::limit'')
       = Some 100
   \<and> getDefinition (enterInstance sampleBase inClient instanceB2) ''B2::limit''
       = Some (tagged sampleBase inClient
                 ((mkDef ''const'' ''limit'' 1)\<lparr>namespaces := Some [], id_of := 100\<rparr>)
                 (Some instanceB2))
   \<and> (copyNames sampleBase = copyNames_spec
       \<and> addNamespacesToDef sampleBase = addNamespacesToDef_spec
       \<and> map_option id_of (getDefinition (enterInstance sampleBase inClient instanceB2)
             (''B2'' @ ''::'' @ ''limit'')) = Some 100)
   \<and> importError ''PARAM-NOT-CONST'' instanceB2
       \<in> set (emitted inClient (enterInstance sampleBase inClient instanceB2))
   \<and> map_of (heap (enterInstance sampleBase inClient instanceB2) (nextRef inClient)) ''balance''
       = Some ((mkDef ''var'' ''balance'' 2)\<lparr>namespaces := Some []\<rparr>)
   \<and> importError ''PARAM-NOT-FOUND'' instanceB2
       \<in> set (emitted inClient (enterInstance sampleBase inClient instanceB2))
   \<and> map_of (heap (enterInstance sampleBase inClient instanceB2) (nextRef inClient)) ''missing''
       = None
   \<and> heap (applyOverride sampleBase instanceB2 (nextRef inClient)
              (\<lparr>param_id = 33, param_name = ''missing''\<rparr>, \<lparr>ex_id = 102\<rparr>) inClient)
       = heap inClient"
proof -
  let ?limit = "\<lparr>param_id = 31, param_name = ''limit''\<rparr>"
  let ?balance = "\<lparr>param_id = 32, param_name = ''balance''\<rparr>"
  let ?missing = "\<lparr>param_id = 33, param_name = ''missing''\<rparr>"
  let ?s' = "enterInstance sampleBase inClient instanceB2"
  have h1: "protoName instanceB2 \<noteq> currentModuleName inClient"
    and h2: "map_of (definitionsByModule inClient) (protoName instanceB2) = Some 1"
    by (simp_all add: inClient_eq instanceB2_def mkDecl_def)
  have nr: "nextRef inClient = 3" by (simp add: inClient_eq)
  have o1: "overrides instanceB2 = [] @ (?limit, \<lparr>ex_id = 100\<rparr>) #
               [(?balance, \<lparr>ex_id = 101\<rparr>), (?missing, \<lparr>ex_id = 102\<rparr>)]"
    and o2: "overrides instanceB2 = [(?limit, \<lparr>ex_id = 100\<rparr>)] @ (?balance, \<lparr>ex_id = 101\<rparr>) #
               [(?missing, \<lparr>ex_id = 102\<rparr>)]"
    and o3: "overrides instanceB2 = [(?limit, \<lparr>ex_id = 100\<rparr>), (?balance, \<lparr>ex_id = 101\<rparr>)]
               @ (?missing, \<lparr>ex_id = 102\<rparr>) # []"
    by (simp_all add: instanceB2_def mkDecl_def)
  note t1 = enterInstance_override[OF h1 h2 o1, of sampleBase]
  note t2 = enterInstance_override[OF h1 h2 o2, of sampleBase]
  note t3 = enterInstance_override[OF h1 h2 o3, of sampleBase]
  have p1: "map_of (Map_new (heap inClient 1)) (param_name ?limit)
              = Some ((mkDef ''const'' ''limit'' 1)\<lparr>namespaces := Some []\<rparr>)
            \<and> kind ((mkDef ''const'' ''limit'' 1)\<lparr>namespaces := Some []\<rparr>) = ''const''
            \<and> param_name ?limit \<notin> param_name ` fst `
                 set [(?balance, \<lparr>ex_id = 101\<rparr>), (?missing, \<lparr>ex_id = 102\<rparr>)]"
    by (simp add: inClient_eq Map_new_def mkDef_def)
  have limit: "map_of (heap ?s' (nextRef inClient)) ''limit''
       = Some ((mkDef ''const'' ''limit'' 1)\<lparr>namespaces := Some [], id_of := 100\<rparr>)"
    using t1[THEN conjunct2, THEN conjunct2, THEN conjunct1, rule_format, OF p1]
    by (simp add: mkDef_def)
  have free: "getDefinition inClient k = None" for k
    by (simp add: inClient_eq getDefinition_def table_def)
  have p4: "distinct (map fst (copyNames sampleBase (heap ?s' (nextRef inClient))
                                 (qualifiedName instanceB2) (Some True)))
            \<and> map_of (copyNames sampleBase (heap ?s' (nextRef inClient))
                                 (qualifiedName instanceB2) (Some True)) ''B2::limit''
              = Some ((mkDef ''const'' ''limit'' 1)\<lparr>namespaces := Some [], id_of := 100\<rparr>)
            \<and> (\<forall>e. getDefinition inClient ''B2::limit'' = Some e \<longrightarrow>
                   id_of e = id_of ((mkDef ''const'' ''limit'' 1)\<lparr>namespaces := Some [], id_of := 100\<rparr>))"
    unfolding nr instanceB2_heap free
    by (simp add: instanceB2_def copyNames_spec_def Map_new_def truthy_def sample_defs)
  have entry: "getDefinition ?s' ''B2::limit''
       = Some (tagged sampleBase inClient
                 ((mkDef ''const'' ''limit'' 1)\<lparr>namespaces := Some [], id_of := 100\<rparr>)
                 (Some instanceB2))"
    by (rule t1[THEN conjunct2, THEN conjunct2, THEN conjunct2, THEN conjunct1, rule_format,
                OF p4])
  have p6: "map_of (Map_new (heap inClient 1)) (param_name ?limit)
              = Some ((mkDef ''const'' ''limit'' 1)\<lparr>namespaces := Some []\<rparr>)
            \<and> kind ((mkDef ''const'' ''limit'' 1)\<lparr>namespaces := Some []\<rparr>) = ''const''
            \<and> param_name ?limit \<notin> param_name ` fst `
                 set [(?balance, \<lparr>ex_id = 101\<rparr>), (?missing, \<lparr>ex_id = 102\<rparr>)]
            \<and> distinct (map fst (copyNames sampleBase (heap ?s' (nextRef inClient))
                                 (qualifiedName instanceB2) (Some True)))
            \<and> map_option id_of
                  (map_of (copyNames sampleBase (heap ?s' (nextRef inClient))
                                 (qualifiedName instanceB2) (Some True)) ''B2::limit'')
                = map_option id_of (map_of (heap ?s' (nextRef inClient)) (param_name ?limit))
            \<and> (\<forall>d nss. id_of (addNamespacesToDef sampleBase d nss) = id_of d)
            \<and> (\<forall>e. getDefinition inClient ''B2::limit'' = Some e \<longrightarrow> id_of e = ex_id \<lparr>ex_id = 100\<rparr>)"
    unfolding nr instanceB2_heap free
    by (simp add: inClient_eq instanceB2_def copyNames_spec_def addNamespacesToDef_spec_def
          Map_new_def truthy_def sample_defs)
  have qlimit: "map_option id_of (getDefinition ?s' ''B2::limit'') = Some 100"
    using t1[THEN conjunct2, THEN conjunct2, THEN conjunct2, THEN conjunct2, THEN conjunct1,
             rule_format, OF p6]
    by simp
  have p7: "copyNames sampleBase = copyNames_spec
            \<and> addNamespacesToDef sampleBase = addNamespacesToDef_spec
            \<and> qualifiedName instanceB2 = Some ''B2'' \<and> ''B2'' \<noteq> []
            \<and> map_of (Map_new (heap inClient 1)) (param_name ?limit)
              = Some ((mkDef ''const'' ''limit'' 1)\<lparr>namespaces := Some []\<rparr>)
            \<and> kind ((mkDef ''const'' ''limit'' 1)\<lparr>namespaces := Some []\<rparr>) = ''const''
            \<and> param_name ?limit \<notin> param_name ` fst `
                 set [(?balance, \<lparr>ex_id = 101\<rparr>), (?missing, \<lparr>ex_id = 102\<rparr>)]
            \<and> map_of (Map_new (heap inClient 1)) (''B2'' @ ''::'' @ param_name ?limit) = None
            \<and> (\<forall>e. getDefinition inClient (''B2'' @ ''::'' @ param_name ?limit) = Some e \<longrightarrow>
                   id_of e = ex_id \<lparr>ex_id = 100\<rparr>)"
    unfolding free
    by (simp add: inClient_eq instanceB2_def Map_new_def sample_defs)
  have byName: "copyNames sampleBase = copyNames_spec
       \<and> addNamespacesToDef sampleBase = addNamespacesToDef_spec
       \<and> map_option id_of (getDefinition ?s' (''B2'' @ ''::'' @ ''limit'')) = Some 100"
    using t1[THEN conjunct2, THEN conjunct2, THEN conjunct2, THEN conjunct2, THEN conjunct2,
             THEN conjunct1, rule_format, OF p7]
    by (simp add: sampleBase_def)
  have p2: "map_of (Map_new (heap inClient 1)) (param_name ?balance)
              = Some ((mkDef ''var'' ''balance'' 2)\<lparr>namespaces := Some []\<rparr>)
            \<and> kind ((mkDef ''var'' ''balance'' 2)\<lparr>namespaces := Some []\<rparr>) \<noteq> ''const''"
    by (simp add: inClient_eq Map_new_def mkDef_def)
  have balance: "importError ''PARAM-NOT-CONST'' instanceB2 \<in> set (emitted inClient ?s')
       \<and> map_of (heap ?s' (nextRef inClient)) ''balance''
            = Some ((mkDef ''var'' ''balance'' 2)\<lparr>namespaces := Some []\<rparr>)"
    using t2[THEN conjunct2, THEN conjunct1, rule_format, OF p2]
    by (simp add: sampleBase_def)
  have p3: "map_of (Map_new (heap inClient 1)) (param_name ?missing) = None"
    by (simp add: inClient_eq Map_new_def)
  have missing: "importError ''PARAM-NOT-FOUND'' instanceB2 \<in> set (emitted inClient ?s')
       \<and> map_of (heap ?s' (nextRef inClient)) ''missing'' = None"
    using t3[THEN conjunct1, rule_format, OF p3] by (simp add: sampleBase_def)
  have p5: "map_of (heap inClient (nextRef inClient)) (param_name ?missing) = None
            \<or> (\<exists>cd. map_of (heap inClient (nextRef inClient)) (param_name ?missing) = Some cd
                     \<and> kind cd \<noteq> ''const'')"
    by (simp add: inClient_eq)
  have step: "heap (applyOverride sampleBase instanceB2 (nextRef inClient)
                 (?missing, \<lparr>ex_id = 102\<rparr>) inClient) = heap inClient"
    by (rule t3[THEN conjunct2, THEN conjunct2, THEN conjunct2, THEN conjunct2, THEN conjunct2,
                THEN conjunct2, rule_format, OF p5])
  from h1 h2 limit qlimit entry byName balance missing step show ?thesis by (simp only: simp_thms)
qed


end
